theory Spec2Isabelle
  imports Complex_Main "HOL-Library.Log_Nat"
begin

section \<open>The quota gate of the summarisation service (Main.py)\<close>

text \<open>
  The service keeps one row per user in the MySQL table \<open>users\<close>. Every request to
  \<open>POST /resume\<close> first runs the dependency \<open>verify_api_key\<close>, which looks the caller
  up, checks the daily quota of the free plan and then calls \<open>update_user_usage\<close>,
  which checks the one-request-per-second limit and writes the new counters.

  Modelling decisions:
  \<^item> a row of \<open>users\<close> is a record; the table is the list of its rows in the order in
    which the server returns them, so that \<open>fetchone\<close> is the first matching row and an
    \<open>UPDATE ... WHERE id=\<close> changes every row with that id;
  \<^item> a calendar date is its ordinal number (\<open>date.toordinal()\<close>), a nullable column is
    an \<open>option\<close>;
  \<^item> a Unix timestamp, a Python \<open>float\<close>, is the real number it stands for; the
    subtraction of line 68 is the subtraction of two doubles, that is the exact
    difference rounded to the nearest double (\<open>float_sub\<close> below);
  \<^item> \<open>date.today()\<close> and \<open>time.time()\<close> are inputs of the model (record \<open>clock\<close>); the two
    reads of \<open>date.today()\<close> within one request are taken to give the same date;
  \<^item> a raised exception is the \<open>Inl\<close> of a sum; the table is returned next to the
    outcome, so that "nothing was written" is a statement about the model;
  \<^item> a Python string is the list of its code points; \<open>CHR 0xE9\<close> and \<open>CHR 0xEA\<close> are the
    accented letters of the French messages;
  \<^item> SQL string equality is taken to be exact (binary collation), the columns \<open>plan\<close>
    and \<open>requests_today\<close> are never \<open>NULL\<close>, a column gives back the value that was
    written to it, and a failing database connection is outside the model;
  \<^item> the schema is not part of the source: where a property needs \<open>id\<close> to be a key of
    the table, it assumes that the ids of the rows are distinct.
\<close>

subsection \<open>Data\<close>

type_synonym date = int

record user =
  user_id :: int
  api_key :: string
  plan :: string
  requests_today :: int
  last_request_date :: "date option"
  last_request_time :: "real option"

type_synonym db = "user list"

record clock =
  today :: date
  now_ts :: real

datatype error =
    HTTPException (status_code: nat) (detail: string)
  | Exception string

definition DAILY_LIMIT :: int where
  "DAILY_LIMIT = 20"

text \<open>The four \<open>HTTPException\<close>s the source raises, in the order of the file.\<close>

definition InvalidKey :: error where
  "InvalidKey = HTTPException 401 (''Cl'' @ [CHR 0xE9] @ '' API invalide'')"

definition RateLimited :: error where
  "RateLimited =
     HTTPException 429 (''Trop de requ'' @ [CHR 0xEA] @ ''tes, attendez 1 seconde.'')"

definition MissingKey :: error where
  "MissingKey = HTTPException 401 (''Cl'' @ [CHR 0xE9] @ '' API manquante'')"

definition QuotaExceeded :: error where
  "QuotaExceeded = HTTPException 429 ''Quota journalier atteint. Passez au plan PRO.''"

subsection \<open>Subtraction of two Python floats\<close>

text \<open>
  A Python \<open>float\<close> is an IEEE 754 double: 53 significant bits, results rounded to
  the nearest double, a tie to the one with the even significand. The exponent is
  left unbounded: a difference of two doubles is exact when it is too small for a
  normal number, and an overflow compares with 1 as the large number it stands for.
\<close>

text \<open>The nearest integer, a tie to the even one.\<close>

definition round_half_even :: "real \<Rightarrow> int" where
  "round_half_even x =
     (let n = \<lfloor>x\<rfloor>; r = x - of_int n
      in if r < 1/2 then n else if 1/2 < r then n + 1 else if even n then n else n + 1)"

text \<open>
  The binary exponent of a number other than 0, the \<open>e\<close> with
  \<open>2 powi e \<le> \<bar>x\<bar> < 2 powi (e + 1)\<close>, computed from the number of bits of an integer.
\<close>

definition exponent :: "real \<Rightarrow> int" where
  "exponent x =
     (if 1 \<le> \<bar>x\<bar> then bitlen \<lfloor>\<bar>x\<bar>\<rfloor> - 1 else - bitlen (\<lceil>1 / \<bar>x\<bar>\<rceil> - 1))"

text \<open>
  The nearest double: the nearest multiple of the unit in the last place, which is
  \<open>2 powi (e - 52)\<close>.
\<close>

definition round_double :: "real \<Rightarrow> real" where
  "round_double x =
     (if x = 0 then 0
      else of_int (round_half_even (x / 2 powi (exponent x - 52))) * 2 powi (exponent x - 52))"

text \<open>\<open>a - b\<close> on two floats.\<close>

definition float_sub :: "real \<Rightarrow> real \<Rightarrow> real" where
  "float_sub a b = round_double (a - b)"

subsection \<open>Database access\<close>

text \<open>\<open>cursor.fetchone()\<close>: the first row of the result set, or \<open>None\<close>.\<close>

fun fetchone :: "'a list \<Rightarrow> 'a option" where
  "fetchone [] = None"
| "fetchone (r # rs) = Some r"

text \<open>\<open>get_user_from_db\<close>, Main.py lines 47-56. A pure lookup.\<close>

definition get_user_from_db :: "string \<Rightarrow> db \<Rightarrow> error + user" where
  "get_user_from_db k d =
     (case fetchone (filter (\<lambda>r. api_key r = k) d) of
        None \<Rightarrow> Inl InvalidKey
      | Some u \<Rightarrow> Inr u)"

text \<open>
  The condition of line 68,
  \<^verbatim>\<open>u["last_request_time"] and now_ts - float(u["last_request_time"]) < 1\<close>.
  The left operand is a truth test of the stored value: \<open>None\<close> is false, and so is the
  number \<open>0.0\<close>. The stored value is a float already, and the subtraction is the
  one of floats.
\<close>

fun too_soon :: "real \<Rightarrow> real option \<Rightarrow> bool" where
  "too_soon now None = False"
| "too_soon now (Some t) = (t \<noteq> 0 \<and> float_sub now t < 1)"

text \<open>
  \<open>update_user_usage\<close>, Main.py lines 58-84. The row is read by id; when no row has
  the id, \<open>u\<close> is \<open>None\<close> and the subscript raises \<open>TypeError\<close>. The rejection closes the
  connection without a commit; otherwise one of the two \<open>UPDATE\<close> statements runs and
  is committed.
\<close>

definition update_user_usage :: "clock \<Rightarrow> int \<Rightarrow> db \<Rightarrow> (error + unit) \<times> db" where
  "update_user_usage clk uid d =
     (case fetchone (filter (\<lambda>r. user_id r = uid) d) of
        None \<Rightarrow> (Inl (Exception ''TypeError''), d)
      | Some u \<Rightarrow>
          if too_soon (now_ts clk) (last_request_time u) then (Inl RateLimited, d)
          else if last_request_date u \<noteq> Some (today clk) then
            (Inr (),
             map (\<lambda>r. if user_id r = uid
                       then r\<lparr>requests_today := 1,
                              last_request_date := Some (today clk),
                              last_request_time := Some (now_ts clk)\<rparr>
                       else r) d)
          else
            (Inr (),
             map (\<lambda>r. if user_id r = uid
                       then r\<lparr>requests_today := requests_today r + 1,
                              last_request_time := Some (now_ts clk)\<rparr>
                       else r) d))"

subsection \<open>Authentication and quota\<close>

text \<open>
  Lines 95-97: for a free-plan row whose date is not today, the local copy of the row
  gets \<open>requests_today = 0\<close>. Only the dictionary in memory changes, not the table.
\<close>

definition lazy_reset :: "date \<Rightarrow> user \<Rightarrow> user" where
  "lazy_reset day u =
     (if last_request_date u \<noteq> Some day then u\<lparr>requests_today := 0\<rparr> else u)"

text \<open>
  \<open>verify_api_key\<close>, Main.py lines 87-102. The header is \<open>None\<close> when absent;
  \<open>not x_api_key\<close> also holds for the empty string. The block of lines 94-99 either
  raises or goes on with the local dictionary \<open>user\<close>. The function returns that
  dictionary, which is the row as read (after the reset of line 97), not the row as
  written by \<open>update_user_usage\<close>.
\<close>

definition verify_api_key :: "clock \<Rightarrow> string option \<Rightarrow> db \<Rightarrow> (error + user) \<times> db" where
  "verify_api_key clk x_api_key d =
     (case x_api_key of
        None \<Rightarrow> (Inl MissingKey, d)
      | Some k \<Rightarrow>
          if k = [] then (Inl MissingKey, d)
          else
            (case get_user_from_db k d of
               Inl e \<Rightarrow> (Inl e, d)
             | Inr row \<Rightarrow>
                 (case (if plan row = ''free'' then
                          (let user = lazy_reset (today clk) row
                           in if requests_today user \<ge> DAILY_LIMIT
                              then Inl QuotaExceeded else Inr user)
                        else Inr row) of
                    Inl e \<Rightarrow> (Inl e, d)
                  | Inr user \<Rightarrow>
                      (case update_user_usage clk (user_id user) d of
                         (Inl e, d') \<Rightarrow> (Inl e, d')
                       | (Inr _, d') \<Rightarrow> (Inr user, d')))))"

text \<open>
  The row that the \<open>UPDATE\<close> of lines 73-82 leaves in place of the row \<open>u\<close> it was
  decided on: the first statement on a new day, the second on the same day.
\<close>

definition written :: "clock \<Rightarrow> user \<Rightarrow> user" where
  "written clk u =
     (if last_request_date u \<noteq> Some (today clk)
      then u\<lparr>requests_today := 1, last_request_date := Some (today clk),
             last_request_time := Some (now_ts clk)\<rparr>
      else u\<lparr>requests_today := requests_today u + 1,
             last_request_time := Some (now_ts clk)\<rparr>)"

subsection \<open>The endpoint\<close>

record TexteReq =
  content :: string
  max_length :: int
  min_length :: int

record resume =
  resume_user_id :: int
  resume_plan :: string
  summary_text :: string

text \<open>
  The summarisation pipeline is an external collaborator: a parameter of the model
  that, given the text and the two lengths, either raises or returns the list of
  the \<open>summary_text\<close> fields of its results.
\<close>

type_synonym summarizer = "string \<Rightarrow> int \<Rightarrow> int \<Rightarrow> error + string list"

text \<open>
  \<open>resumage\<close>, Main.py lines 105-112. \<open>Depends(verify_api_key)\<close> makes the framework
  run \<open>verify_api_key\<close> before the body of the handler, and answer with its
  exception, without entering the body, when it raises. The third component of the
  result lists the calls made to the pipeline, with their arguments; \<open>summary[0]\<close> of
  an empty list raises \<open>IndexError\<close>.
\<close>

definition resumage ::
  "summarizer \<Rightarrow> clock \<Rightarrow> string option \<Rightarrow> TexteReq \<Rightarrow> db \<Rightarrow>
   (error + resume) \<times> db \<times> (string \<times> int \<times> int) list" where
  "resumage SUMMARIZER clk x_api_key req d =
     (case verify_api_key clk x_api_key d of
        (Inl e, d') \<Rightarrow> (Inl e, d', [])
      | (Inr user, d') \<Rightarrow>
          let call = (content req, max_length req, min_length req) in
          (case SUMMARIZER (content req) (max_length req) (min_length req) of
             Inl e \<Rightarrow> (Inl e, d', [call])
           | Inr [] \<Rightarrow> (Inl (Exception ''IndexError''), d', [call])
           | Inr (s # _) \<Rightarrow>
               (Inr \<lparr>resume_user_id = user_id user, resume_plan = plan user,
                     summary_text = s\<rparr>, d', [call])))"

subsection \<open>Sequences of requests\<close>

text \<open>
  One caller sending one request after the other on the same day, at the given
  times: the outcomes in order, and the table after the last request.
\<close>

fun requests_seq :: "string \<Rightarrow> date \<Rightarrow> real list \<Rightarrow> db \<Rightarrow> (error + user) list \<times> db" where
  "requests_seq k day [] d = ([], d)"
| "requests_seq k day (t # ts) d =
     (case verify_api_key \<lparr>today = day, now_ts = t\<rparr> (Some k) d of
        (r, d') \<Rightarrow> (case requests_seq k day ts d' of (rs, d'') \<Rightarrow> (r # rs, d'')))"

text \<open>Consecutive requests at least one second apart.\<close>

fun spaced :: "real list \<Rightarrow> bool" where
  "spaced [] = True"
| "spaced [t] = True"
| "spaced (t # t' # ts) = (t' - t \<ge> 1 \<and> spaced (t' # ts))"

text \<open>The rejection of an outcome, \<open>None\<close> for an accepted request.\<close>

fun rejection :: "error + 'a \<Rightarrow> error option" where
  "rejection (Inl e) = Some e"
| "rejection (Inr _) = None"

subsection \<open>Two requests at once\<close>

text \<open>
  One request reaches the table three times, each time on a connection of its own:
  the \<open>SELECT\<close> of line 51, the \<open>SELECT\<close> of line 63, and the \<open>UPDATE\<close> of lines 74-82
  with the commit of line 83. The source takes no lock and reads without
  \<open>FOR UPDATE\<close>, so the statements of another request may run between them. Each
  statement is taken to be atomic and to see the table as the committed statements
  before it left it.

  The two \<open>UPDATE\<close> statements with their parameters, and what they do to the table
  they find: the second one increments the count that is in the table when it runs.
\<close>

datatype stmt = NewDay date real | SameDay real

fun execute :: "stmt \<Rightarrow> int \<Rightarrow> db \<Rightarrow> db" where
  "execute (NewDay day now) uid d =
     map (\<lambda>r. if user_id r = uid
               then r\<lparr>requests_today := 1,
                      last_request_date := Some day,
                      last_request_time := Some now\<rparr>
               else r) d"
| "execute (SameDay now) uid d =
     map (\<lambda>r. if user_id r = uid
               then r\<lparr>requests_today := requests_today r + 1,
                      last_request_time := Some now\<rparr>
               else r) d"

text \<open>
  Where a request stands: before the lookup of lines 88-99, before the read of
  lines 60-72 (holding the dictionary \<open>user\<close>), before the write it has decided on,
  or finished with its outcome. \<open>step\<close> runs the request up to its next statement.
\<close>

datatype pc = Lookup | Usage user | Write user stmt | Finished "error + user"

fun step :: "clock \<Rightarrow> string option \<Rightarrow> pc \<Rightarrow> db \<Rightarrow> pc \<times> db" where
  "step clk x_api_key Lookup d =
     (case x_api_key of
        None \<Rightarrow> (Finished (Inl MissingKey), d)
      | Some k \<Rightarrow>
          if k = [] then (Finished (Inl MissingKey), d)
          else
            (case get_user_from_db k d of
               Inl e \<Rightarrow> (Finished (Inl e), d)
             | Inr row \<Rightarrow>
                 (case (if plan row = ''free'' then
                          (let user = lazy_reset (today clk) row
                           in if requests_today user \<ge> DAILY_LIMIT
                              then Inl QuotaExceeded else Inr user)
                        else Inr row) of
                    Inl e \<Rightarrow> (Finished (Inl e), d)
                  | Inr user \<Rightarrow> (Usage user, d))))"
| "step clk x_api_key (Usage user) d =
     (case fetchone (filter (\<lambda>r. user_id r = user_id user) d) of
        None \<Rightarrow> (Finished (Inl (Exception ''TypeError'')), d)
      | Some u \<Rightarrow>
          if too_soon (now_ts clk) (last_request_time u)
          then (Finished (Inl RateLimited), d)
          else if last_request_date u \<noteq> Some (today clk)
          then (Write user (NewDay (today clk) (now_ts clk)), d)
          else (Write user (SameDay (now_ts clk)), d))"
| "step clk x_api_key (Write user st) d =
     (Finished (Inr user), execute st (user_id user) d)"
| "step clk x_api_key (Finished r) d = (Finished r, d)"

text \<open>Two requests, \<open>A\<close> and \<open>B\<close>, and the order in which they take their steps.\<close>

datatype caller = A | B

fun interleave ::
  "caller list \<Rightarrow> clock \<times> string option \<Rightarrow> clock \<times> string option \<Rightarrow>
   pc \<times> pc \<times> db \<Rightarrow> pc \<times> pc \<times> db" where
  "interleave [] a b s = s"
| "interleave (A # sch) a b (pa, pb, d) =
     (case step (fst a) (snd a) pa d of (pa', d') \<Rightarrow> interleave sch a b (pa', pb, d'))"
| "interleave (B # sch) a b (pa, pb, d) =
     (case step (fst b) (snd b) pb d of (pb', d') \<Rightarrow> interleave sch a b (pa, pb', d'))"

section \<open>Properties\<close>

subsection \<open>Comparing a difference of floats with 1\<close>

lemma rhe_ge: "of_int k \<le> x \<Longrightarrow> k \<le> round_half_even x"
  unfolding round_half_even_def Let_def by (auto simp: le_floor_iff) (linarith+)?

lemma rhe_le: "x \<le> of_int k \<Longrightarrow> round_half_even x \<le> k"
  unfolding round_half_even_def Let_def by (auto; linarith)

lemma rhe_le_half: "x < of_int k - 1/2 \<Longrightarrow> round_half_even x \<le> k - 1"
  unfolding round_half_even_def Let_def by (auto; linarith)

lemma rhe_ge_half:
  assumes "of_int k - 1/2 \<le> x" and "even k"
  shows "k \<le> round_half_even x"
proof (cases "of_int k \<le> x")
  case True
  then show ?thesis by (rule rhe_ge)
next
  case False
  then have fl: "\<lfloor>x\<rfloor> = k - 1" using assms(1) by linarith
  have "odd (k - 1)" using assms(2) by simp
  then show ?thesis
    using assms(1) unfolding round_half_even_def Let_def fl by auto
qed

lemma exponent_bounds:
  assumes "x \<noteq> 0"
  shows "2 powi exponent x \<le> \<bar>x\<bar>" and "\<bar>x\<bar> < 2 powi (exponent x + 1)"
proof -
  have "(2::real) powi exponent x \<le> \<bar>x\<bar> \<and> \<bar>x\<bar> < 2 powi (exponent x + 1)"
  proof (cases "1 \<le> \<bar>x\<bar>")
    case True
    let ?n = "\<lfloor>\<bar>x\<bar>\<rfloor>"
    have n: "0 < ?n" using True by linarith
    have b1: "1 \<le> bitlen ?n" using n by (simp add: bitlen_alt_def)
    have e: "exponent x = bitlen ?n - 1" using True by (simp add: exponent_def)
    have lo: "(2::int) ^ nat (bitlen ?n - 1) \<le> ?n" and hi: "?n < 2 ^ nat (bitlen ?n)"
      using bitlen_bounds [OF n] by simp_all
    have "2 powi exponent x = real_of_int (2 ^ nat (bitlen ?n - 1))"
      using b1 by (simp add: e power_int_def)
    also have "\<dots> \<le> real_of_int ?n" using lo by linarith
    also have "\<dots> \<le> \<bar>x\<bar>" by linarith
    finally have A: "2 powi exponent x \<le> \<bar>x\<bar>" .
    have "?n + 1 \<le> 2 ^ nat (bitlen ?n)" using hi by linarith
    then have "real_of_int (?n + 1) \<le> real_of_int (2 ^ nat (bitlen ?n))"
      by linarith
    moreover have "\<bar>x\<bar> < real_of_int (?n + 1)" by linarith
    moreover have "2 powi (exponent x + 1) = real_of_int (2 ^ nat (bitlen ?n))"
      using b1 by (simp add: e power_int_def)
    ultimately have "\<bar>x\<bar> < 2 powi (exponent x + 1)" by linarith
    with A show ?thesis ..
  next
    case False
    let ?c = "\<lceil>1 / \<bar>x\<bar>\<rceil>"
    let ?m = "?c - 1"
    have pos: "0 < \<bar>x\<bar>" using assms by simp
    have inv: "1 < 1 / \<bar>x\<bar>" using False pos by simp
    have m: "0 < ?m" using inv by linarith
    have b1: "1 \<le> bitlen ?m" using m by (simp add: bitlen_alt_def)
    have e: "exponent x = - bitlen ?m" using False by (simp add: exponent_def)
    have lo: "(2::int) ^ nat (bitlen ?m - 1) \<le> ?m" and hi: "?m < 2 ^ nat (bitlen ?m)"
      using bitlen_bounds [OF m] by simp_all
    have "1 / \<bar>x\<bar> \<le> real_of_int ?c" by linarith
    also have "\<dots> \<le> real_of_int (2 ^ nat (bitlen ?m))" using hi by linarith
    finally have "1 / \<bar>x\<bar> \<le> 2 ^ nat (bitlen ?m)" by simp
    then have "1 \<le> 2 ^ nat (bitlen ?m) * \<bar>x\<bar>"
      using pos by (simp add: field_simps)
    then have "1 / 2 ^ nat (bitlen ?m) \<le> \<bar>x\<bar>"
      by (simp add: field_simps)
    moreover have "(2::real) powi exponent x = 1 / 2 ^ nat (bitlen ?m)"
      using b1 by (simp add: e power_int_def power_one_over inverse_eq_divide)
    ultimately have A: "2 powi exponent x \<le> \<bar>x\<bar>" by simp
    have "real_of_int (2 ^ nat (bitlen ?m - 1)) \<le> real_of_int ?m" using lo by linarith
    also have "\<dots> < 1 / \<bar>x\<bar>" by linarith
    finally have "2 ^ nat (bitlen ?m - 1) < 1 / \<bar>x\<bar>" by simp
    then have "2 ^ nat (bitlen ?m - 1) * \<bar>x\<bar> < 1"
      using pos by (simp add: field_simps)
    then have "\<bar>x\<bar> < 1 / 2 ^ nat (bitlen ?m - 1)"
      by (simp add: field_simps)
    moreover have "(2::real) powi (exponent x + 1) = 1 / 2 ^ nat (bitlen ?m - 1)"
    proof -
      have "exponent x + 1 = - (bitlen ?m - 1)" by (simp add: e)
      moreover have "0 \<le> bitlen ?m - 1" using b1 by simp
      ultimately show ?thesis
        by (simp only: power_int_minus_divide) (simp add: power_int_def)
    qed
    ultimately have "\<bar>x\<bar> < 2 powi (exponent x + 1)" by simp
    with A show ?thesis ..
  qed
  then show "2 powi exponent x \<le> \<bar>x\<bar>" and "\<bar>x\<bar> < 2 powi (exponent x + 1)"
    by simp_all
qed


lemma ulp_pos: "0 < (2::real) powi n"
  by simp

lemma ulp_times_52: "(2::real) powi (e - 52) * 2 ^ 52 = 2 powi e"
proof -
  have "e = (e - 52) + 52" by simp
  then have "(2::real) powi e = 2 powi ((e - 52) + 52)" by (rule arg_cong)
  also have "\<dots> = 2 powi (e - 52) * 2 powi 52" by (rule power_int_add) simp
  finally show ?thesis by simp
qed

lemma ulp_times_53: "(2::real) powi (e - 52) * 2 ^ 53 = 2 powi (e + 1)"
proof -
  have "e + 1 = (e - 52) + 53" by simp
  then have "(2::real) powi (e + 1) = 2 powi ((e - 52) + 53)" by (rule arg_cong)
  also have "\<dots> = 2 powi (e - 52) * 2 powi 53" by (rule power_int_add) simp
  finally show ?thesis by simp
qed

lemma exponent_nonneg: assumes "1 \<le> x" shows "0 \<le> exponent x"
proof (rule ccontr)
  assume "\<not> 0 \<le> exponent x"
  then have "exponent x + 1 \<le> 0" by simp
  then have "(2::real) powi (exponent x + 1) \<le> 2 powi 0"
    by (intro power_int_increasing) simp_all
  moreover have "\<bar>x\<bar> < 2 powi (exponent x + 1)"
    using assms by (intro exponent_bounds) simp
  ultimately show False using assms by simp
qed

lemma exponent_neg: assumes "0 < x" and "x < 1" shows "exponent x \<le> - 1"
proof (rule ccontr)
  assume "\<not> exponent x \<le> - 1"
  then have "0 \<le> exponent x" by simp
  then have "(2::real) powi 0 \<le> 2 powi exponent x"
    by (intro power_int_increasing) simp_all
  moreover have "2 powi exponent x \<le> \<bar>x\<bar>"
    using assms by (intro exponent_bounds) simp
  ultimately show False using assms by simp
qed

lemma exponent_half: assumes "1/2 \<le> x" and "x < 1" shows "exponent x = - 1"
proof -
  have le: "exponent x \<le> - 1" using assms by (intro exponent_neg) simp_all
  have "\<not> exponent x \<le> - 2"
  proof
    assume "exponent x \<le> - 2"
    then have "exponent x + 1 \<le> - 1" by simp
    then have "(2::real) powi (exponent x + 1) \<le> 2 powi (- 1)"
      by (intro power_int_increasing) simp_all
    moreover have "\<bar>x\<bar> < 2 powi (exponent x + 1)"
      using assms by (intro exponent_bounds) simp
    ultimately show False using assms by simp
  qed
  with le show ?thesis by simp
qed

lemma round_double_ge_1:
  assumes "1 - 1/2^54 \<le> x"
  shows "1 \<le> round_double x"
proof -
  let ?e = "exponent x"
  let ?u = "(2::real) powi (?e - 52)"
  have pos: "0 < x" using assms by simp
  have rd: "round_double x = of_int (round_half_even (x / ?u)) * ?u"
    using pos by (simp add: round_double_def)
  show ?thesis
  proof (cases "1 \<le> x")
    case True
    have e0: "0 \<le> ?e" using True by (rule exponent_nonneg)
    have "2 powi ?e \<le> \<bar>x\<bar>" using pos by (intro exponent_bounds) simp
    then have "?u * 2 ^ 52 \<le> x" using pos ulp_times_52 [of ?e] by simp
    then have "of_int (2 ^ 52) \<le> x / ?u"
      using ulp_pos [of "?e - 52"] by (simp add: field_simps)
    then have "2 ^ 52 \<le> round_half_even (x / ?u)" by (rule rhe_ge)
    then have "real_of_int (2 ^ 52) \<le> of_int (round_half_even (x / ?u))"
      by linarith
    then have "real_of_int (2 ^ 52) * ?u \<le> round_double x"
      unfolding rd using ulp_pos [of "?e - 52"] by (intro mult_right_mono) simp_all
    then have "2 powi ?e \<le> round_double x"
      using ulp_times_52 [of ?e] by (simp add: mult.commute)
    moreover have "(2::real) powi 0 \<le> 2 powi ?e"
      using e0 by (intro power_int_increasing) simp_all
    ultimately show ?thesis by simp
  next
    case False
    have e: "?e = - 1" using assms False by (intro exponent_half) simp_all
    have u: "?u = 1 / 2 ^ 53" by (simp add: e power_int_minus_divide)
    have "of_int (2 ^ 53) - 1/2 \<le> x / ?u"
      using assms by (simp add: u field_simps)
    then have "2 ^ 53 \<le> round_half_even (x / ?u)"
      by (rule rhe_ge_half) simp
    then have "real_of_int (2 ^ 53) \<le> of_int (round_half_even (x / ?u))"
      by linarith
    then show ?thesis unfolding rd u by simp
  qed
qed

lemma round_double_less_1:
  assumes "x < 1 - 1/2^54"
  shows "round_double x < 1"
proof -
  let ?e = "exponent x"
  let ?u = "(2::real) powi (?e - 52)"
  consider "x = 0" | "x < 0" | "0 < x" by linarith
  then show ?thesis
  proof cases
    case 1
    then show ?thesis by (simp add: round_double_def)
  next
    case 2
    then have "x / ?u \<le> of_int 0"
      using ulp_pos [of "?e - 52"] by (simp add: field_simps)
    then have "round_half_even (x / ?u) \<le> 0" by (rule rhe_le)
    then have "real_of_int (round_half_even (x / ?u)) * ?u \<le> 0"
      using ulp_pos [of "?e - 52"] by (simp add: mult_le_0_iff)
    then show ?thesis using 2 by (simp add: round_double_def)
  next
    case 3
    have rd: "round_double x = of_int (round_half_even (x / ?u)) * ?u"
      using 3 by (simp add: round_double_def)
    have x1: "x < 1" using assms by simp
    have le: "?e \<le> - 1" using 3 x1 by (rule exponent_neg)
    show ?thesis
    proof (cases "?e = - 1")
      case True
      have u: "?u = 1 / 2 ^ 53" by (simp add: True power_int_minus_divide)
      have "x / ?u < of_int (2 ^ 53) - 1/2"
        using assms by (simp add: u field_simps)
      then have "round_half_even (x / ?u) \<le> 2 ^ 53 - 1" by (rule rhe_le_half)
      then have "real_of_int (round_half_even (x / ?u)) \<le> real_of_int (2 ^ 53 - 1)"
        by (simp only: of_int_le_iff)
      then show ?thesis unfolding rd u by simp
    next
      case False
      then have e2: "?e + 1 \<le> - 1" using le by simp
      have "\<bar>x\<bar> < 2 powi (?e + 1)" using 3 by (intro exponent_bounds) simp
      then have "x < ?u * 2 ^ 53" using 3 ulp_times_53 [of ?e] by simp
      then have "x / ?u \<le> of_int (2 ^ 53)"
        using ulp_pos [of "?e - 52"] by (simp add: field_simps)
      then have "round_half_even (x / ?u) \<le> 2 ^ 53" by (rule rhe_le)
      then have "real_of_int (round_half_even (x / ?u)) \<le> real_of_int (2 ^ 53)"
        by linarith
      then have "round_double x \<le> real_of_int (2 ^ 53) * ?u"
        unfolding rd using ulp_pos [of "?e - 52"] by (intro mult_right_mono) simp_all
      then have "round_double x \<le> 2 powi (?e + 1)"
        using ulp_times_53 [of ?e] by (simp add: mult.commute)
      moreover have "(2::real) powi (?e + 1) \<le> 2 powi (- 1)"
        using e2 by (intro power_int_increasing) simp_all
      ultimately show ?thesis by simp
    qed
  qed
qed

lemma float_sub_less_1_iff [simp]: "float_sub a b < 1 \<longleftrightarrow> a - b < 1 - 1/2^54"
  using round_double_ge_1 [of "a - b"] round_double_less_1 [of "a - b"]
  unfolding float_sub_def by linarith

subsection \<open>Auxiliary facts about the table\<close>

lemma errors_distinct: "distinct [MissingKey, InvalidKey, RateLimited, QuotaExceeded]"
  by (simp add: MissingKey_def InvalidKey_def RateLimited_def QuotaExceeded_def)

lemma fetchone_filter_Some:
  "fetchone (filter P d) = Some u \<Longrightarrow> u \<in> set d \<and> P u"
  by (induction d) (auto split: if_splits)

lemma fetchone_filter_None:
  "fetchone (filter P d) = None \<longleftrightarrow> (\<forall>r \<in> set d. \<not> P r)"
  by (induction d) auto

lemma get_user_from_db_Inr:
  "get_user_from_db k d = Inr u \<Longrightarrow> u \<in> set d \<and> api_key u = k"
  by (auto simp: get_user_from_db_def split: option.splits dest: fetchone_filter_Some)

lemma distinct_id_eq:
  "distinct (map user_id d) \<Longrightarrow> u \<in> set d \<Longrightarrow> r \<in> set d \<Longrightarrow>
   user_id r = user_id u \<longleftrightarrow> r = u"
  by (auto simp: distinct_map inj_on_def)

lemma fetchone_by_id:
  "distinct (map user_id d) \<Longrightarrow> u \<in> set d \<Longrightarrow>
   fetchone (filter (\<lambda>r. user_id r = user_id u) d) = Some u"
  by (induction d) auto

lemma map_by_id:
  "distinct (map user_id d) \<Longrightarrow> u \<in> set d \<Longrightarrow>
   map (\<lambda>r. if user_id r = user_id u then f r else r) d =
   map (\<lambda>r. if r = u then f u else r) d"
  by (rule map_cong) (auto simp: distinct_id_eq)

lemma get_user_from_db_replace:
  "get_user_from_db k d = Inr u \<Longrightarrow> api_key u' = k \<Longrightarrow>
   get_user_from_db k (map (\<lambda>r. if r = u then u' else r) d) = Inr u'"
  unfolding get_user_from_db_def
  by (induction d) (auto split: if_splits option.splits)

lemma map_user_id_replace:
  "user_id u' = user_id u \<Longrightarrow>
   map user_id (map (\<lambda>r. if r = u then u' else r) d) = map user_id d"
  by (induction d) auto

lemma distinct_replace:
  "distinct (map user_id d) \<Longrightarrow> user_id u' = user_id u \<Longrightarrow>
   distinct (map user_id (map (\<lambda>r. if r = u then u' else r) d))"
  by (simp only: map_user_id_replace)

subsection \<open>What one request does to the row of its caller\<close>

lemma update_user_usage_row:
  assumes "distinct (map user_id d)" and "u \<in> set d"
  shows "update_user_usage clk (user_id u) d =
           (if too_soon (now_ts clk) (last_request_time u) then (Inl RateLimited, d)
            else (Inr (), map (\<lambda>r. if r = u then written clk u else r) d))"
  using assms
  by (simp add: update_user_usage_def fetchone_by_id map_by_id written_def)

lemma verify_api_key_row:
  assumes "distinct (map user_id d)" and "get_user_from_db k d = Inr u" and "k \<noteq> []"
  shows "verify_api_key clk (Some k) d =
           (if plan u = ''free'' \<and> DAILY_LIMIT \<le> requests_today (lazy_reset (today clk) u)
            then (Inl QuotaExceeded, d)
            else if too_soon (now_ts clk) (last_request_time u) then (Inl RateLimited, d)
            else (Inr (if plan u = ''free'' then lazy_reset (today clk) u else u),
                  map (\<lambda>r. if r = u then written clk u else r) d))"
proof -
  have in_d: "u \<in> set d" using assms(2) by (simp add: get_user_from_db_Inr)
  have id_reset: "user_id (lazy_reset (today clk) u) = user_id u"
    by (simp add: lazy_reset_def)
  have plan_reset: "plan (lazy_reset (today clk) u) = plan u"
    by (simp add: lazy_reset_def)
  show ?thesis
    using assms(2,3)
    by (simp add: verify_api_key_def Let_def id_reset plan_reset
        update_user_usage_row [OF assms(1) in_d])
qed

lemma verify_api_key_quota:
  assumes "get_user_from_db k d = Inr u" and "k \<noteq> []"
    and "plan u = ''free''" and "DAILY_LIMIT \<le> requests_today (lazy_reset (today clk) u)"
  shows "verify_api_key clk (Some k) d = (Inl QuotaExceeded, d)"
  using assms by (simp add: verify_api_key_def Let_def lazy_reset_def)

lemma written_fields:
  "user_id (written clk u) = user_id u" "api_key (written clk u) = api_key u"
  "plan (written clk u) = plan u"
  "last_request_date (written clk u) = Some (today clk)"
  "last_request_time (written clk u) = Some (now_ts clk)"
  "requests_today (written clk u) = requests_today (lazy_reset (today clk) u) + 1"
  by (simp_all add: written_def lazy_reset_def)

lemma verify_api_key_accepted:
  assumes "distinct (map user_id d)" and "get_user_from_db k d = Inr u" and "k \<noteq> []"
    and "verify_api_key clk (Some k) d = (Inr r, d')"
  shows "d' = map (\<lambda>r. if r = u then written clk u else r) d"
    and "get_user_from_db k d' = Inr (written clk u)"
    and "distinct (map user_id d')"
    and "\<not> too_soon (now_ts clk) (last_request_time u)"
proof -
  show d': "d' = map (\<lambda>r. if r = u then written clk u else r) d"
    using assms(4) by (simp add: verify_api_key_row [OF assms(1-3)] split: if_splits)
  have key: "api_key (written clk u) = k"
    using assms(2) by (simp add: written_fields get_user_from_db_Inr)
  show "get_user_from_db k d' = Inr (written clk u)"
    unfolding d' by (rule get_user_from_db_replace [OF assms(2) key])
  show "distinct (map user_id d')"
    unfolding d' by (rule distinct_replace [OF assms(1)]) (simp add: written_fields)
  show "\<not> too_soon (now_ts clk) (last_request_time u)"
    using assms(4) by (simp add: verify_api_key_row [OF assms(1-3)] split: if_splits)
qed

subsection \<open>Sequences of requests of one caller\<close>

lemma requests_seq_quota:
  assumes "get_user_from_db k d = Inr u" and "k \<noteq> []" and "plan u = ''free''"
    and "DAILY_LIMIT \<le> requests_today (lazy_reset day u)"
  shows "requests_seq k day ts d = (replicate (length ts) (Inl QuotaExceeded), d)"
  using assms by (induction ts) (simp_all add: verify_api_key_quota)

lemma requests_seq_step:
  "verify_api_key \<lparr>today = day, now_ts = t\<rparr> (Some k) d = (r, d') \<Longrightarrow>
   requests_seq k day (t # ts) d =
     (r # fst (requests_seq k day ts d'), snd (requests_seq k day ts d'))"
  by (simp split: prod.splits)

lemma spaced_tl: "spaced (t # ts) \<Longrightarrow> spaced ts"
  by (cases ts) simp_all

lemma requests_seq_free:
  assumes "distinct (map user_id d)" and "get_user_from_db k d = Inr u" and "k \<noteq> []"
    and "plan u = ''free''" and "spaced ts"
    and "ts \<noteq> [] \<Longrightarrow> \<not> too_soon (hd ts) (last_request_time u)"
  shows "map rejection (fst (requests_seq k day ts d)) =
           replicate (min (length ts) (nat (DAILY_LIMIT - requests_today (lazy_reset day u)))) None
           @ replicate (length ts - nat (DAILY_LIMIT - requests_today (lazy_reset day u)))
               (Some QuotaExceeded)"
  using assms
proof (induction ts arbitrary: d u)
  case Nil
  then show ?case by simp
next
  case (Cons t ts)
  let ?clk = "\<lparr>today = day, now_ts = t\<rparr>"
  let ?c = "requests_today (lazy_reset day u)"
  show ?case
  proof (cases "DAILY_LIMIT \<le> ?c")
    case True
    then have "nat (DAILY_LIMIT - ?c) = 0" by simp
    then show ?thesis
      using requests_seq_quota [OF Cons.prems(2,3,4) True, of "t # ts"] by simp
  next
    case False
    let ?u' = "written ?clk u"
    let ?d' = "map (\<lambda>r. if r = u then ?u' else r) d"
    have soon: "\<not> too_soon t (last_request_time u)" using Cons.prems(6) by simp
    have step: "verify_api_key ?clk (Some k) d =
        (Inr (lazy_reset day u), ?d')"
      using False soon Cons.prems(4)
      by (simp add: verify_api_key_row [OF Cons.prems(1,2,3)])
    note acc = verify_api_key_accepted [OF Cons.prems(1,2,3) step]
    have cnt: "requests_today (lazy_reset day ?u') = ?c + 1"
      by (simp add: lazy_reset_def written_def)
    have nxt: "ts \<noteq> [] \<Longrightarrow> \<not> too_soon (hd ts) (last_request_time ?u')"
      using Cons.prems(5) by (cases ts) (simp_all add: written_fields)
    have IH: "map rejection (fst (requests_seq k day ts ?d')) =
        replicate (min (length ts) (nat (DAILY_LIMIT - (?c + 1)))) None
        @ replicate (length ts - nat (DAILY_LIMIT - (?c + 1))) (Some QuotaExceeded)"
      using Cons.IH [OF acc(3) acc(2) Cons.prems(3) _ spaced_tl [OF Cons.prems(5)] nxt]
        Cons.prems(4)
      by (simp add: written_fields cnt)
    have n: "nat (DAILY_LIMIT - ?c) = Suc (nat (DAILY_LIMIT - (?c + 1)))"
      using False by simp
    show ?thesis
      using IH by (simp add: requests_seq_step [OF step] n del: requests_seq.simps)
  qed
qed


lemma rejection_None: "rejection r = None \<Longrightarrow> \<exists>x. r = Inr x"
  by (cases r) simp_all

lemma not_too_soon_le:
  "\<not> too_soon t (Some s) \<Longrightarrow> 0 \<le> t \<Longrightarrow> s \<le> t"
  by (cases "s = 0") simp_all

lemma requests_seq_accepted_row:
  assumes "distinct (map user_id d)" and "get_user_from_db k d = Inr u" and "k \<noteq> []"
    and "\<forall>r \<in> set (fst (requests_seq k day (t # ts) d)). rejection r = None"
  shows "\<exists>u'. get_user_from_db k (snd (requests_seq k day (t # ts) d)) = Inr u'
           \<and> requests_today u' = requests_today (lazy_reset day u) + 1 + int (length ts)
           \<and> last_request_date u' = Some day
           \<and> last_request_time u' = Some (last (t # ts))"
  using assms
proof (induction ts arbitrary: t d u)
  case Nil
  let ?clk = "\<lparr>today = day, now_ts = t\<rparr>"
  obtain r d' where step: "verify_api_key ?clk (Some k) d = (r, d')"
    by (cases "verify_api_key ?clk (Some k) d") simp
  have "rejection r = None" using Nil.prems(4) step by simp
  then obtain x where r: "r = Inr x" using rejection_None by blast
  note acc = verify_api_key_accepted [OF Nil.prems(1,2,3) step [unfolded r]]
  show ?case using acc(2) by (simp add: step written_fields)
next
  case (Cons t' ts)
  let ?clk = "\<lparr>today = day, now_ts = t\<rparr>"
  obtain r d' where step: "verify_api_key ?clk (Some k) d = (r, d')"
    by (cases "verify_api_key ?clk (Some k) d") simp
  note seq = requests_seq_step [OF step, of "t' # ts"]
  have "rejection r = None"
    using Cons.prems(4) unfolding seq by (simp del: requests_seq.simps)
  then obtain x where r: "r = Inr x" using rejection_None by blast
  note acc = verify_api_key_accepted [OF Cons.prems(1,2,3) step [unfolded r]]
  have rest: "\<forall>r \<in> set (fst (requests_seq k day (t' # ts) d')). rejection r = None"
    using Cons.prems(4) unfolding seq by (simp del: requests_seq.simps)
  have cnt: "requests_today (lazy_reset day (written ?clk u)) =
      requests_today (lazy_reset day u) + 1"
    by (simp add: lazy_reset_def written_def)
  show ?case
    using Cons.IH [OF acc(3) acc(2) Cons.prems(3) rest]
    unfolding seq by (auto simp add: cnt simp del: requests_seq.simps)
qed

lemma requests_seq_accepted_sorted:
  assumes "distinct (map user_id d)" and "get_user_from_db k d = Inr u" and "k \<noteq> []"
    and "\<forall>r \<in> set (fst (requests_seq k day (t # ts) d)). rejection r = None"
    and "\<forall>x \<in> set (t # ts). 0 \<le> x"
  shows "sorted (t # ts) \<and> (\<forall>s. last_request_time u = Some s \<longrightarrow> s \<le> t)"
  using assms
proof (induction ts arbitrary: t d u)
  case Nil
  let ?clk = "\<lparr>today = day, now_ts = t\<rparr>"
  obtain r d' where step: "verify_api_key ?clk (Some k) d = (r, d')"
    by (cases "verify_api_key ?clk (Some k) d") simp
  have "rejection r = None" using Nil.prems(4) step by simp
  then obtain x where r: "r = Inr x" using rejection_None by blast
  note acc = verify_api_key_accepted [OF Nil.prems(1,2,3) step [unfolded r]]
  show ?case using acc(4) Nil.prems(5) not_too_soon_le [of t] by auto
next
  case (Cons t' ts)
  let ?clk = "\<lparr>today = day, now_ts = t\<rparr>"
  obtain r d' where step: "verify_api_key ?clk (Some k) d = (r, d')"
    by (cases "verify_api_key ?clk (Some k) d") simp
  note seq = requests_seq_step [OF step, of "t' # ts"]
  have "rejection r = None"
    using Cons.prems(4) unfolding seq by (simp del: requests_seq.simps)
  then obtain x where r: "r = Inr x" using rejection_None by blast
  note acc = verify_api_key_accepted [OF Cons.prems(1,2,3) step [unfolded r]]
  have rest: "\<forall>r \<in> set (fst (requests_seq k day (t' # ts) d')). rejection r = None"
    using Cons.prems(4) unfolding seq by (simp del: requests_seq.simps)
  have nonneg: "\<forall>x \<in> set (t' # ts). 0 \<le> x" using Cons.prems(5) by simp
  have "sorted (t' # ts) \<and> (\<forall>s. last_request_time (written ?clk u) = Some s \<longrightarrow> s \<le> t')"
    by (rule Cons.IH [OF acc(3) acc(2) Cons.prems(3) rest nonneg])
  then have "sorted (t # t' # ts)" by (auto simp: written_fields)
  then show ?case using acc(4) Cons.prems(5) not_too_soon_le [of t] by auto
qed

subsection \<open>The steps of a request\<close>

text \<open>
  The three steps of one request, run without interruption, are \<open>verify_api_key\<close>;
  two requests run one after the other are two calls of \<open>verify_api_key\<close>.
\<close>

lemma steps_compose:
  "(case step clk x Lookup d of (p1, d1) \<Rightarrow>
      case step clk x p1 d1 of (p2, d2) \<Rightarrow> step clk x p2 d2)
   = (Finished (fst (verify_api_key clk x d)), snd (verify_api_key clk x d))"
  by (auto simp: verify_api_key_def update_user_usage_def Let_def
      split: option.splits sum.splits prod.splits if_splits)

lemma interleave_sequential:
  "interleave [A, A, A, B, B, B] (clka, xa) (clkb, xb) (Lookup, Lookup, d) =
     (Finished (fst (verify_api_key clka xa d)),
      Finished (fst (verify_api_key clkb xb (snd (verify_api_key clka xa d)))),
      snd (verify_api_key clkb xb (snd (verify_api_key clka xa d))))"
proof -
  obtain r d' where a: "verify_api_key clka xa d = (r, d')"
    by (cases "verify_api_key clka xa d")
  have sa: "(case step clka xa Lookup d of (p1, d1) \<Rightarrow>
      case step clka xa p1 d1 of (p2, d2) \<Rightarrow> step clka xa p2 d2) = (Finished r, d')"
    using steps_compose [of clka xa d] a by simp
  have sb: "(case step clkb xb Lookup d' of (p1, d1) \<Rightarrow>
      case step clkb xb p1 d1 of (p2, d2) \<Rightarrow> step clkb xb p2 d2)
      = (Finished (fst (verify_api_key clkb xb d')), snd (verify_api_key clkb xb d'))"
    by (rule steps_compose)
  show ?thesis
    using sa sb unfolding a
    by (auto simp del: step.simps split: prod.splits)
qed

section \<open>The claims\<close>

subsection \<open>C1: order of the two checks\<close>

text \<open>
  C1 states that the rate limit is evaluated before the daily quota, so that a
  free-plan row that fails both checks is rejected with \<open>RateLimited\<close>. The source
  checks the quota in \<open>verify_api_key\<close> (lines 93-99) before it calls
  \<open>update_user_usage\<close> (line 101), where the rate limit is. The row below has used its
  20 requests today and asked again half a second after its last request: the answer
  is \<open>QuotaExceeded\<close>.
\<close>

theorem rate_limit_first_counterexample:
  "fst (verify_api_key \<lparr>today = 738000, now_ts = 1700000000.5\<rparr> (Some ''key-1'')
       [\<lparr>user_id = 1, api_key = ''key-1'', plan = ''free'', requests_today = 20,
         last_request_date = Some 738000, last_request_time = Some 1700000000\<rparr>])
   = Inl QuotaExceeded
   \<and> fst (verify_api_key \<lparr>today = 738000, now_ts = 1700000000.5\<rparr> (Some ''key-1'')
       [\<lparr>user_id = 1, api_key = ''key-1'', plan = ''free'', requests_today = 20,
         last_request_date = Some 738000, last_request_time = Some 1700000000\<rparr>])
   \<noteq> Inl RateLimited"
  by (simp add: verify_api_key_def get_user_from_db_def lazy_reset_def DAILY_LIMIT_def
      QuotaExceeded_def RateLimited_def)

text \<open>
  C1 as amended: the daily quota is evaluated before the rate limit, and the first
  failing check wins. A free-plan row whose count for today (the stored count when
  the stored date is today, otherwise 0) is at least 20 and whose last request is less
  than one second old is rejected with \<open>QuotaExceeded\<close>, which is not \<open>RateLimited\<close>,
  and the table is left as it was.
\<close>

theorem quota_before_rate_limit:
  assumes "get_user_from_db k d = Inr u" and "k \<noteq> []"
    and "plan u = ''free''"
    and "DAILY_LIMIT \<le> requests_today (lazy_reset (today clk) u)"
    and "last_request_time u = Some t" and "now_ts clk - t < 1"
  shows "verify_api_key clk (Some k) d = (Inl QuotaExceeded, d)
         \<and> QuotaExceeded \<noteq> RateLimited"
  using assms(1-4) errors_distinct by (auto simp: verify_api_key_quota)

theorem quota_before_rate_limit_witness:
  "get_user_from_db ''key-1''
     [\<lparr>user_id = 1, api_key = ''key-1'', plan = ''free'', requests_today = 20,
       last_request_date = Some 738000, last_request_time = Some 1700000000\<rparr>]
   = Inr \<lparr>user_id = 1, api_key = ''key-1'', plan = ''free'', requests_today = 20,
       last_request_date = Some 738000, last_request_time = Some 1700000000\<rparr>
   \<and> DAILY_LIMIT \<le> requests_today (lazy_reset 738000
       \<lparr>user_id = 1, api_key = ''key-1'', plan = ''free'', requests_today = 20,
        last_request_date = Some 738000, last_request_time = Some 1700000000\<rparr>)
   \<and> (1700000000.5 :: real) - 1700000000 < 1
   \<and> verify_api_key \<lparr>today = 738000, now_ts = 1700000000.5\<rparr> (Some ''key-1'')
       [\<lparr>user_id = 1, api_key = ''key-1'', plan = ''free'', requests_today = 20,
         last_request_date = Some 738000, last_request_time = Some 1700000000\<rparr>]
     = (Inl QuotaExceeded,
       [\<lparr>user_id = 1, api_key = ''key-1'', plan = ''free'', requests_today = 20,
         last_request_date = Some 738000, last_request_time = Some 1700000000\<rparr>])"
  using quota_before_rate_limit
    [of "''key-1''"
        "[\<lparr>user_id = 1, api_key = ''key-1'', plan = ''free'', requests_today = 20,
           last_request_date = Some 738000, last_request_time = Some 1700000000\<rparr>]"
        "\<lparr>user_id = 1, api_key = ''key-1'', plan = ''free'', requests_today = 20,
           last_request_date = Some 738000, last_request_time = Some 1700000000\<rparr>"
        "\<lparr>today = 738000, now_ts = 1700000000.5\<rparr>" "1700000000"]
  by (simp add: get_user_from_db_def lazy_reset_def DAILY_LIMIT_def)

subsection \<open>C2: the rate limit\<close>

text \<open>
  C2 states that a row with a stored \<open>last_request_time\<close> is rejected with
  \<open>RateLimited\<close> exactly when the elapsed time is below one second. For a free-plan row
  that has used its quota the quota check comes first: the row below asks again a
  quarter of a second after its last request and is not answered \<open>RateLimited\<close>.
\<close>

theorem rate_limited_iff_counterexample:
  "(1700000000.25 :: real) - 1700000000 < 1
   \<and> last_request_time
        \<lparr>user_id = 2, api_key = ''key-2'', plan = ''free'', requests_today = 25,
         last_request_date = Some 738000, last_request_time = Some 1700000000\<rparr>
       = Some 1700000000
   \<and> fst (verify_api_key \<lparr>today = 738000, now_ts = 1700000000.25\<rparr> (Some ''key-2'')
       [\<lparr>user_id = 2, api_key = ''key-2'', plan = ''free'', requests_today = 25,
         last_request_date = Some 738000, last_request_time = Some 1700000000\<rparr>])
     \<noteq> Inl RateLimited"
  by (simp add: verify_api_key_def get_user_from_db_def lazy_reset_def DAILY_LIMIT_def
      QuotaExceeded_def RateLimited_def)

text \<open>
  C2 as amended: for every row that passes the daily-quota check (its plan is not
  \<open>free\<close>, or its count for today is below 20) and whose stored \<open>last_request_time\<close> is
  present and not the number 0, the request is rejected with \<open>RateLimited\<close> if and only
  if the difference \<open>now - last_request_time\<close>, computed on floats as line 68 computes
  it, is strictly less than 1. That is the case exactly when the difference of the
  two numbers is less than \<open>1 - 1 / 2 ^ 54\<close>: an elapsed time of one second or more is
  never rejected (exactly one second is allowed), and neither is one so close below
  one second that the subtraction rounds it to 1. On the rejection the table is left
  as it was. The ids of the table are distinct, as a primary key is.
\<close>

theorem rate_limited_iff:
  assumes "distinct (map user_id d)" and "get_user_from_db k d = Inr u" and "k \<noteq> []"
    and "\<not> (plan u = ''free'' \<and> DAILY_LIMIT \<le> requests_today (lazy_reset (today clk) u))"
    and "last_request_time u = Some t" and "t \<noteq> 0"
  shows "(fst (verify_api_key clk (Some k) d) = Inl RateLimited \<longleftrightarrow>
            float_sub (now_ts clk) t < 1)
         \<and> (fst (verify_api_key clk (Some k) d) = Inl RateLimited \<longleftrightarrow>
            now_ts clk - t < 1 - 1 / 2 ^ 54)
         \<and> (1 \<le> now_ts clk - t \<longrightarrow>
            fst (verify_api_key clk (Some k) d) \<noteq> Inl RateLimited)
         \<and> (fst (verify_api_key clk (Some k) d) = Inl RateLimited \<longrightarrow>
            snd (verify_api_key clk (Some k) d) = d)"
proof -
  have res: "verify_api_key clk (Some k) d =
      (if too_soon (now_ts clk) (Some t) then (Inl RateLimited, d)
       else (Inr (if plan u = ''free'' then lazy_reset (today clk) u else u),
             map (\<lambda>r. if r = u then written clk u else r) d))"
    using assms(4,5) by (simp only: verify_api_key_row [OF assms(1-3)] if_False)
  have soon: "too_soon (now_ts clk) (Some t) \<longleftrightarrow> float_sub (now_ts clk) t < 1"
    using assms(6) by (simp del: float_sub_less_1_iff)
  have fst_iff: "fst (verify_api_key clk (Some k) d) = Inl RateLimited \<longleftrightarrow>
      float_sub (now_ts clk) t < 1"
    unfolding res soon by simp
  have real_iff: "float_sub (now_ts clk) t < 1 \<longleftrightarrow> now_ts clk - t < 1 - 1 / 2 ^ 54"
    by (rule float_sub_less_1_iff)
  have unchanged: "snd (verify_api_key clk (Some k) d) = d"
    if "fst (verify_api_key clk (Some k) d) = Inl RateLimited"
    using that unfolding res by (simp split: if_splits)
  have allowed: "fst (verify_api_key clk (Some k) d) \<noteq> Inl RateLimited"
    if "1 \<le> now_ts clk - t"
    using that unfolding fst_iff real_iff by simp
  show ?thesis
    using fst_iff real_iff unchanged allowed by blast
qed

theorem rate_limited_iff_witness:
  "distinct (map user_id
     [\<lparr>user_id = 2, api_key = ''key-2'', plan = ''free'', requests_today = 3,
         last_request_date = Some 738000, last_request_time = Some 1700000000\<rparr>])
   \<and> get_user_from_db ''key-2''
       [\<lparr>user_id = 2, api_key = ''key-2'', plan = ''free'', requests_today = 3,
         last_request_date = Some 738000, last_request_time = Some 1700000000\<rparr>]
     = Inr \<lparr>user_id = 2, api_key = ''key-2'', plan = ''free'', requests_today = 3,
         last_request_date = Some 738000, last_request_time = Some 1700000000\<rparr>
   \<and> \<not> DAILY_LIMIT \<le> requests_today (lazy_reset 738000
       \<lparr>user_id = 2, api_key = ''key-2'', plan = ''free'', requests_today = 3,
         last_request_date = Some 738000, last_request_time = Some 1700000000\<rparr>)
   \<and> float_sub 1700000000.5 1700000000 < 1
   \<and> verify_api_key \<lparr>today = 738000, now_ts = 1700000000.5\<rparr> (Some ''key-2'')
       [\<lparr>user_id = 2, api_key = ''key-2'', plan = ''free'', requests_today = 3,
         last_request_date = Some 738000, last_request_time = Some 1700000000\<rparr>]
     = (Inl RateLimited,
       [\<lparr>user_id = 2, api_key = ''key-2'', plan = ''free'', requests_today = 3,
         last_request_date = Some 738000, last_request_time = Some 1700000000\<rparr>])
   \<and> (1 :: real) \<le> 1700000001 - 1700000000
   \<and> fst (verify_api_key \<lparr>today = 738000, now_ts = 1700000001\<rparr> (Some ''key-2'')
       [\<lparr>user_id = 2, api_key = ''key-2'', plan = ''free'', requests_today = 3,
         last_request_date = Some 738000, last_request_time = Some 1700000000\<rparr>])
     \<noteq> Inl RateLimited
   \<and> get_user_from_db ''key-2''
       [\<lparr>user_id = 2, api_key = ''key-2'', plan = ''free'', requests_today = 3,
         last_request_date = Some 738000, last_request_time = Some (1 / 2 ^ 60)\<rparr>]
     = Inr \<lparr>user_id = 2, api_key = ''key-2'', plan = ''free'', requests_today = 3,
         last_request_date = Some 738000, last_request_time = Some (1 / 2 ^ 60)\<rparr>
   \<and> \<not> float_sub 1 (1 / 2 ^ 60) < 1
   \<and> fst (verify_api_key \<lparr>today = 738000, now_ts = 1\<rparr> (Some ''key-2'')
       [\<lparr>user_id = 2, api_key = ''key-2'', plan = ''free'', requests_today = 3,
         last_request_date = Some 738000, last_request_time = Some (1 / 2 ^ 60)\<rparr>])
     \<noteq> Inl RateLimited"
  using rate_limited_iff
    [of "[\<lparr>user_id = 2, api_key = ''key-2'', plan = ''free'', requests_today = 3,
         last_request_date = Some 738000, last_request_time = Some 1700000000\<rparr>]"
        "''key-2''"
        "\<lparr>user_id = 2, api_key = ''key-2'', plan = ''free'', requests_today = 3,
         last_request_date = Some 738000, last_request_time = Some 1700000000\<rparr>"
        "\<lparr>today = 738000, now_ts = 1700000000.5\<rparr>" "1700000000"]
    rate_limited_iff
    [of "[\<lparr>user_id = 2, api_key = ''key-2'', plan = ''free'', requests_today = 3,
         last_request_date = Some 738000, last_request_time = Some 1700000000\<rparr>]"
        "''key-2''"
        "\<lparr>user_id = 2, api_key = ''key-2'', plan = ''free'', requests_today = 3,
         last_request_date = Some 738000, last_request_time = Some 1700000000\<rparr>"
        "\<lparr>today = 738000, now_ts = 1700000001\<rparr>" "1700000000"]
    rate_limited_iff
    [of "[\<lparr>user_id = 2, api_key = ''key-2'', plan = ''free'', requests_today = 3,
         last_request_date = Some 738000, last_request_time = Some (1 / 2 ^ 60)\<rparr>]"
        "''key-2''"
        "\<lparr>user_id = 2, api_key = ''key-2'', plan = ''free'', requests_today = 3,
         last_request_date = Some 738000, last_request_time = Some (1 / 2 ^ 60)\<rparr>"
        "\<lparr>today = 738000, now_ts = 1\<rparr>" "1 / 2 ^ 60"]
  by (simp add: get_user_from_db_def lazy_reset_def DAILY_LIMIT_def prod_eq_iff)

subsection \<open>C3: the daily quota of the free plan\<close>

text \<open>
  C3: a free-plan row whose count for today (\<open>requests_today\<close> when
  \<open>last_request_date\<close> is today, otherwise 0) is at least 20 is rejected with
  \<open>QuotaExceeded\<close> and the table is left as it was. Consequently, for a fresh
  free-plan caller (count 0, no \<open>last_request_time\<close>) who sends requests on one day,
  each at least a second after the one before, the first 20 are accepted and the
  21st, like every later one, is rejected with \<open>QuotaExceeded\<close>.
\<close>

theorem free_quota_enforced:
  assumes "get_user_from_db k d = Inr u" and "k \<noteq> []" and "plan u = ''free''"
  shows "(DAILY_LIMIT \<le> requests_today (lazy_reset (today clk) u) \<longrightarrow>
            verify_api_key clk (Some k) d = (Inl QuotaExceeded, d))
         \<and> (distinct (map user_id d) \<and> requests_today u = 0 \<and> last_request_time u = None
              \<and> spaced ts \<longrightarrow>
            map rejection (fst (requests_seq k day ts d)) =
              replicate (min (length ts) (nat DAILY_LIMIT)) None
              @ replicate (length ts - nat DAILY_LIMIT) (Some QuotaExceeded))"
proof (intro conjI impI)
  assume "DAILY_LIMIT \<le> requests_today (lazy_reset (today clk) u)"
  then show "verify_api_key clk (Some k) d = (Inl QuotaExceeded, d)"
    using assms by (simp add: verify_api_key_quota)
next
  assume a: "distinct (map user_id d) \<and> requests_today u = 0 \<and> last_request_time u = None
    \<and> spaced ts"
  have zero: "requests_today (lazy_reset day u) = 0"
    using a by (simp add: lazy_reset_def)
  have "\<not> too_soon (hd ts) (last_request_time u)" using a by simp
  then show "map rejection (fst (requests_seq k day ts d)) =
      replicate (min (length ts) (nat DAILY_LIMIT)) None
      @ replicate (length ts - nat DAILY_LIMIT) (Some QuotaExceeded)"
    using requests_seq_free [of d k u ts day] a assms
    by (simp add: zero DAILY_LIMIT_def)
qed

theorem free_quota_enforced_witness:
  "get_user_from_db ''key-3''
     [\<lparr>user_id = 3, api_key = ''key-3'', plan = ''free'', requests_today = 20,
         last_request_date = Some 738000, last_request_time = Some 1700000000\<rparr>]
   = Inr \<lparr>user_id = 3, api_key = ''key-3'', plan = ''free'', requests_today = 20,
         last_request_date = Some 738000, last_request_time = Some 1700000000\<rparr>
   \<and> DAILY_LIMIT \<le> requests_today (lazy_reset 738000
       \<lparr>user_id = 3, api_key = ''key-3'', plan = ''free'', requests_today = 20,
         last_request_date = Some 738000, last_request_time = Some 1700000000\<rparr>)
   \<and> verify_api_key \<lparr>today = 738000, now_ts = 1700000002\<rparr> (Some ''key-3'')
       [\<lparr>user_id = 3, api_key = ''key-3'', plan = ''free'', requests_today = 20,
         last_request_date = Some 738000, last_request_time = Some 1700000000\<rparr>]
     = (Inl QuotaExceeded,
       [\<lparr>user_id = 3, api_key = ''key-3'', plan = ''free'', requests_today = 20,
         last_request_date = Some 738000, last_request_time = Some 1700000000\<rparr>])
   \<and> get_user_from_db ''key-3''
       [\<lparr>user_id = 3, api_key = ''key-3'', plan = ''free'', requests_today = 0,
         last_request_date = None, last_request_time = None\<rparr>]
     = Inr \<lparr>user_id = 3, api_key = ''key-3'', plan = ''free'', requests_today = 0,
         last_request_date = None, last_request_time = None\<rparr>
   \<and> spaced
         [1700000000, 1700000002, 1700000004, 1700000006, 1700000008, 1700000010,
          1700000012, 1700000014, 1700000016, 1700000018, 1700000020, 1700000022,
          1700000024, 1700000026, 1700000028, 1700000030, 1700000032, 1700000034,
          1700000036, 1700000038, 1700000040]
   \<and> map rejection (fst (requests_seq ''key-3'' 738000
         [1700000000, 1700000002, 1700000004, 1700000006, 1700000008, 1700000010,
          1700000012, 1700000014, 1700000016, 1700000018, 1700000020, 1700000022,
          1700000024, 1700000026, 1700000028, 1700000030, 1700000032, 1700000034,
          1700000036, 1700000038, 1700000040]
         [\<lparr>user_id = 3, api_key = ''key-3'', plan = ''free'', requests_today = 0,
         last_request_date = None, last_request_time = None\<rparr>]))
     = replicate 20 None @ [Some QuotaExceeded]"
  using free_quota_enforced
    [of "''key-3''"
        "[\<lparr>user_id = 3, api_key = ''key-3'', plan = ''free'', requests_today = 20,
         last_request_date = Some 738000, last_request_time = Some 1700000000\<rparr>]"
        "\<lparr>user_id = 3, api_key = ''key-3'', plan = ''free'', requests_today = 20,
         last_request_date = Some 738000, last_request_time = Some 1700000000\<rparr>"
        "\<lparr>today = 738000, now_ts = 1700000002\<rparr>"]
    free_quota_enforced
    [of "''key-3''"
        "[\<lparr>user_id = 3, api_key = ''key-3'', plan = ''free'', requests_today = 0,
         last_request_date = None, last_request_time = None\<rparr>]"
        "\<lparr>user_id = 3, api_key = ''key-3'', plan = ''free'', requests_today = 0,
         last_request_date = None, last_request_time = None\<rparr>"
        _
        "[1700000000, 1700000002, 1700000004, 1700000006, 1700000008, 1700000010,
          1700000012, 1700000014, 1700000016, 1700000018, 1700000020, 1700000022,
          1700000024, 1700000026, 1700000028, 1700000030, 1700000032, 1700000034,
          1700000036, 1700000038, 1700000040]"
        738000]
  by (simp add: get_user_from_db_def lazy_reset_def DAILY_LIMIT_def eval_nat_numeral
      del: requests_seq.simps)

subsection \<open>C4: what an accepted request writes\<close>

text \<open>
  C4: when a request is accepted (it passes both checks), the stored row of the
  caller becomes the following. If its \<open>last_request_date\<close> was not today, whatever its
  \<open>requests_today\<close> was: \<open>requests_today\<close> is exactly 1, \<open>last_request_date\<close> is today
  and \<open>last_request_time\<close> is now. Otherwise \<open>requests_today\<close> is one more than before
  and \<open>last_request_time\<close> is now, with the date unchanged.
\<close>

theorem accepted_request_commit:
  assumes "distinct (map user_id d)" and "get_user_from_db k d = Inr u" and "k \<noteq> []"
    and "verify_api_key clk (Some k) d = (Inr r, d')"
  shows "get_user_from_db k d' =
           Inr (if last_request_date u \<noteq> Some (today clk)
                then u\<lparr>requests_today := 1, last_request_date := Some (today clk),
                       last_request_time := Some (now_ts clk)\<rparr>
                else u\<lparr>requests_today := requests_today u + 1,
                       last_request_time := Some (now_ts clk)\<rparr>)"
proof -
  have key: "api_key (written clk u) = k"
    using assms(2) by (simp add: written_def get_user_from_db_Inr)
  have "d' = map (\<lambda>r. if r = u then written clk u else r) d"
    using assms(4) by (simp add: verify_api_key_row [OF assms(1-3)] split: if_splits)
  then have "get_user_from_db k d' = Inr (written clk u)"
    using get_user_from_db_replace [OF assms(2) key] by simp
  then show ?thesis by (simp add: written_def)
qed

theorem accepted_request_commit_witness:
  "distinct (map user_id
     [\<lparr>user_id = 4, api_key = ''key-4'', plan = ''free'', requests_today = 20,
       last_request_date = Some 737999, last_request_time = Some 1699990000\<rparr>])
   \<and> get_user_from_db ''key-4''
       [\<lparr>user_id = 4, api_key = ''key-4'', plan = ''free'', requests_today = 20,
         last_request_date = Some 737999, last_request_time = Some 1699990000\<rparr>]
     = Inr \<lparr>user_id = 4, api_key = ''key-4'', plan = ''free'', requests_today = 20,
         last_request_date = Some 737999, last_request_time = Some 1699990000\<rparr>
   \<and> verify_api_key \<lparr>today = 738000, now_ts = 1700000000\<rparr> (Some ''key-4'')
       [\<lparr>user_id = 4, api_key = ''key-4'', plan = ''free'', requests_today = 20,
         last_request_date = Some 737999, last_request_time = Some 1699990000\<rparr>]
     = (Inr \<lparr>user_id = 4, api_key = ''key-4'', plan = ''free'', requests_today = 0,
         last_request_date = Some 737999, last_request_time = Some 1699990000\<rparr>,
       [\<lparr>user_id = 4, api_key = ''key-4'', plan = ''free'', requests_today = 1,
         last_request_date = Some 738000, last_request_time = Some 1700000000\<rparr>])
   \<and> get_user_from_db ''key-4''
       [\<lparr>user_id = 4, api_key = ''key-4'', plan = ''free'', requests_today = 1,
         last_request_date = Some 738000, last_request_time = Some 1700000000\<rparr>]
     = Inr \<lparr>user_id = 4, api_key = ''key-4'', plan = ''free'', requests_today = 1,
         last_request_date = Some 738000, last_request_time = Some 1700000000\<rparr>"
  using accepted_request_commit
    [of "[\<lparr>user_id = 4, api_key = ''key-4'', plan = ''free'', requests_today = 20,
           last_request_date = Some 737999, last_request_time = Some 1699990000\<rparr>]"
        "''key-4''"
        "\<lparr>user_id = 4, api_key = ''key-4'', plan = ''free'', requests_today = 20,
           last_request_date = Some 737999, last_request_time = Some 1699990000\<rparr>"
        "\<lparr>today = 738000, now_ts = 1700000000\<rparr>"
        "\<lparr>user_id = 4, api_key = ''key-4'', plan = ''free'', requests_today = 0,
           last_request_date = Some 737999, last_request_time = Some 1699990000\<rparr>"
        "[\<lparr>user_id = 4, api_key = ''key-4'', plan = ''free'', requests_today = 1,
           last_request_date = Some 738000, last_request_time = Some 1700000000\<rparr>]"]
  by (simp add: verify_api_key_def update_user_usage_def get_user_from_db_def
      lazy_reset_def DAILY_LIMIT_def)

text \<open>
  The same-day case of C4 on a concrete row, evaluated from the definitions: the
  count goes from 7 to 8, the time is replaced and the date stays.
\<close>

lemma same_day_commit_example:
  "verify_api_key \<lparr>today = 738000, now_ts = 1700000002\<rparr> (Some ''key-4'')
     [\<lparr>user_id = 4, api_key = ''key-4'', plan = ''free'', requests_today = 7,
       last_request_date = Some 738000, last_request_time = Some 1700000000\<rparr>]
   = (Inr \<lparr>user_id = 4, api_key = ''key-4'', plan = ''free'', requests_today = 7,
       last_request_date = Some 738000, last_request_time = Some 1700000000\<rparr>,
     [\<lparr>user_id = 4, api_key = ''key-4'', plan = ''free'', requests_today = 8,
       last_request_date = Some 738000, last_request_time = Some 1700000002\<rparr>])"
  by (simp add: verify_api_key_def update_user_usage_def get_user_from_db_def
      lazy_reset_def DAILY_LIMIT_def)

subsection \<open>C5: the pro plan\<close>

text \<open>
  C5: a row whose plan is \<open>pro\<close> is never rejected with \<open>QuotaExceeded\<close>, whatever its
  \<open>requests_today\<close>; its request is admitted subject only to the rate limit: it is
  answered \<open>RateLimited\<close> when the rate limit applies and accepted otherwise.
\<close>

theorem pro_plan_only_rate_limited:
  assumes "distinct (map user_id d)" and "get_user_from_db k d = Inr u" and "k \<noteq> []"
    and "plan u = ''pro''"
  shows "fst (verify_api_key clk (Some k) d) \<noteq> Inl QuotaExceeded
         \<and> fst (verify_api_key clk (Some k) d) =
             (if too_soon (now_ts clk) (last_request_time u) then Inl RateLimited else Inr u)"
  using assms(4) errors_distinct by (auto simp: verify_api_key_row [OF assms(1-3)])

theorem pro_plan_only_rate_limited_witness:
  "distinct (map user_id
     [\<lparr>user_id = 5, api_key = ''key-5'', plan = ''pro'', requests_today = 1000,
       last_request_date = Some 738000, last_request_time = Some 1700000000\<rparr>])
   \<and> get_user_from_db ''key-5''
       [\<lparr>user_id = 5, api_key = ''key-5'', plan = ''pro'', requests_today = 1000,
         last_request_date = Some 738000, last_request_time = Some 1700000000\<rparr>]
     = Inr \<lparr>user_id = 5, api_key = ''key-5'', plan = ''pro'', requests_today = 1000,
         last_request_date = Some 738000, last_request_time = Some 1700000000\<rparr>
   \<and> fst (verify_api_key \<lparr>today = 738000, now_ts = 1700000002\<rparr> (Some ''key-5'')
       [\<lparr>user_id = 5, api_key = ''key-5'', plan = ''pro'', requests_today = 1000,
         last_request_date = Some 738000, last_request_time = Some 1700000000\<rparr>])
     = Inr \<lparr>user_id = 5, api_key = ''key-5'', plan = ''pro'', requests_today = 1000,
         last_request_date = Some 738000, last_request_time = Some 1700000000\<rparr>"
  using pro_plan_only_rate_limited
    [of "[\<lparr>user_id = 5, api_key = ''key-5'', plan = ''pro'', requests_today = 1000,
           last_request_date = Some 738000, last_request_time = Some 1700000000\<rparr>]"
        "''key-5''"
        "\<lparr>user_id = 5, api_key = ''key-5'', plan = ''pro'', requests_today = 1000,
           last_request_date = Some 738000, last_request_time = Some 1700000000\<rparr>"
        "\<lparr>today = 738000, now_ts = 1700000002\<rparr>"]
  by (simp add: get_user_from_db_def)

subsection \<open>C6: counting the accepted requests of a day\<close>

text \<open>
  C6: take a caller whose row has no request counted for the day yet (the stored
  date is another day, or the stored count is 0) and \<open>N \<ge> 1\<close> requests sent one
  after the other on that day, all of them accepted. Then the stored
  \<open>requests_today\<close> is \<open>N\<close> and the stored \<open>last_request_time\<close> is the time of the last
  request. The stored times never decrease: with request times that are Unix
  timestamps (not negative), the times of the accepted requests are in
  non-decreasing order and the first is not before the time stored at the start.
\<close>

theorem accepted_requests_counted:
  assumes "distinct (map user_id d)" and "get_user_from_db k d = Inr u" and "k \<noteq> []"
    and "ts \<noteq> []"
    and "requests_today (lazy_reset day u) = 0"
    and "\<forall>r \<in> set (fst (requests_seq k day ts d)). rejection r = None"
  shows "(\<exists>u'. get_user_from_db k (snd (requests_seq k day ts d)) = Inr u'
            \<and> requests_today u' = int (length ts)
            \<and> last_request_time u' = Some (last ts))
         \<and> ((\<forall>t \<in> set ts. 0 \<le> t) \<longrightarrow>
              sorted ts \<and> (\<forall>s. last_request_time u = Some s \<longrightarrow> s \<le> hd ts))"
proof -
  obtain t ts' where ts: "ts = t # ts'" using assms(4) by (cases ts) auto
  have acc: "\<forall>r \<in> set (fst (requests_seq k day (t # ts') d)). rejection r = None"
    using assms(6) by (simp only: ts)
  have "\<exists>u'. get_user_from_db k (snd (requests_seq k day ts d)) = Inr u'
            \<and> requests_today u' = int (length ts)
            \<and> last_request_time u' = Some (last ts)"
    using requests_seq_accepted_row [OF assms(1,2,3) acc] assms(5)
    unfolding ts by (auto simp del: requests_seq.simps)
  moreover have "sorted ts \<and> (\<forall>s. last_request_time u = Some s \<longrightarrow> s \<le> hd ts)"
    if "\<forall>t \<in> set ts. 0 \<le> t"
    using requests_seq_accepted_sorted [OF assms(1,2,3) acc] that
    unfolding ts by (simp del: requests_seq.simps)
  ultimately show ?thesis by blast
qed

theorem accepted_requests_counted_witness:
  "distinct (map user_id
     [\<lparr>user_id = 6, api_key = ''key-6'', plan = ''pro'', requests_today = 9,
         last_request_date = Some 737999, last_request_time = Some 1699990000\<rparr>])
   \<and> get_user_from_db ''key-6''
       [\<lparr>user_id = 6, api_key = ''key-6'', plan = ''pro'', requests_today = 9,
         last_request_date = Some 737999, last_request_time = Some 1699990000\<rparr>]
     = Inr \<lparr>user_id = 6, api_key = ''key-6'', plan = ''pro'', requests_today = 9,
         last_request_date = Some 737999, last_request_time = Some 1699990000\<rparr>
   \<and> requests_today (lazy_reset 738000
       \<lparr>user_id = 6, api_key = ''key-6'', plan = ''pro'', requests_today = 9,
         last_request_date = Some 737999, last_request_time = Some 1699990000\<rparr>) = 0
   \<and> fst (requests_seq ''key-6'' 738000 [1700000000, 1700000001, 1700000005]
       [\<lparr>user_id = 6, api_key = ''key-6'', plan = ''pro'', requests_today = 9,
         last_request_date = Some 737999, last_request_time = Some 1699990000\<rparr>])
     = [Inr \<lparr>user_id = 6, api_key = ''key-6'', plan = ''pro'', requests_today = 9,
         last_request_date = Some 737999, last_request_time = Some 1699990000\<rparr>,
        Inr \<lparr>user_id = 6, api_key = ''key-6'', plan = ''pro'', requests_today = 1,
         last_request_date = Some 738000, last_request_time = Some 1700000000\<rparr>,
        Inr \<lparr>user_id = 6, api_key = ''key-6'', plan = ''pro'', requests_today = 2,
         last_request_date = Some 738000, last_request_time = Some 1700000001\<rparr>]
   \<and> get_user_from_db ''key-6''
       (snd (requests_seq ''key-6'' 738000 [1700000000, 1700000001, 1700000005]
         [\<lparr>user_id = 6, api_key = ''key-6'', plan = ''pro'', requests_today = 9,
         last_request_date = Some 737999, last_request_time = Some 1699990000\<rparr>]))
     = Inr \<lparr>user_id = 6, api_key = ''key-6'', plan = ''pro'', requests_today = 3,
         last_request_date = Some 738000, last_request_time = Some 1700000005\<rparr>
   \<and> sorted [1700000000, 1700000001, 1700000005 :: real]
   \<and> (1699990000 :: real) \<le> 1700000000"
  using accepted_requests_counted
    [of "[\<lparr>user_id = 6, api_key = ''key-6'', plan = ''pro'', requests_today = 9,
         last_request_date = Some 737999, last_request_time = Some 1699990000\<rparr>]"
        "''key-6''"
        "\<lparr>user_id = 6, api_key = ''key-6'', plan = ''pro'', requests_today = 9,
         last_request_date = Some 737999, last_request_time = Some 1699990000\<rparr>"
        "[1700000000, 1700000001, 1700000005]"
        738000]
  by (simp add: verify_api_key_def update_user_usage_def get_user_from_db_def
      lazy_reset_def DAILY_LIMIT_def)

subsection \<open>C7: unauthenticated requests\<close>

text \<open>
  C7: when the credential is missing, empty or matches no stored row, the request
  fails with one of the two 401 exceptions, whatever the clock reads (no quota or
  rate-limit check is reached), and the table is left as it was. The rejections are
  kept apart: the unauthenticated ones carry status 401, \<open>RateLimited\<close> and
  \<open>QuotaExceeded\<close> carry status 429 with different messages, and the four exceptions
  differ from one another.
\<close>

theorem unauthenticated_first:
  assumes "x_api_key = None \<or> x_api_key = Some [] \<or>
           (\<exists>k. x_api_key = Some k \<and> k \<notin> api_key ` set d)"
  shows "verify_api_key clk x_api_key d =
           (Inl (if x_api_key = None \<or> x_api_key = Some [] then MissingKey else InvalidKey), d)
         \<and> verify_api_key clk' x_api_key d = verify_api_key clk x_api_key d
         \<and> status_code MissingKey = 401 \<and> status_code InvalidKey = 401
         \<and> status_code RateLimited = 429 \<and> status_code QuotaExceeded = 429
         \<and> detail RateLimited \<noteq> detail QuotaExceeded
         \<and> distinct [MissingKey, InvalidKey, RateLimited, QuotaExceeded]"
proof -
  have no_row: "get_user_from_db k d = Inl InvalidKey" if "k \<notin> api_key ` set d" for k
  proof -
    have "fetchone (filter (\<lambda>r. api_key r = k) d) = None"
      using that by (auto simp: fetchone_filter_None)
    then show ?thesis by (simp add: get_user_from_db_def)
  qed
  have res: "verify_api_key c x_api_key d =
      (Inl (if x_api_key = None \<or> x_api_key = Some [] then MissingKey else InvalidKey), d)"
    for c
  proof (cases x_api_key)
    case None
    then show ?thesis by (simp add: verify_api_key_def)
  next
    case (Some k)
    show ?thesis
    proof (cases "k = []")
      case True
      with Some show ?thesis by (simp add: verify_api_key_def)
    next
      case False
      with Some assms have "k \<notin> api_key ` set d" by auto
      then have "get_user_from_db k d = Inl InvalidKey" by (rule no_row)
      with Some False show ?thesis by (simp add: verify_api_key_def)
    qed
  qed
  have codes: "status_code MissingKey = 401 \<and> status_code InvalidKey = 401
      \<and> status_code RateLimited = 429 \<and> status_code QuotaExceeded = 429
      \<and> detail RateLimited \<noteq> detail QuotaExceeded"
    by (simp add: MissingKey_def InvalidKey_def RateLimited_def QuotaExceeded_def)
  show ?thesis
    using res [of clk] res [of clk'] codes errors_distinct by simp
qed

theorem unauthenticated_first_witness:
  "''nobody'' \<notin> api_key `
       set [\<lparr>user_id = 7, api_key = ''key-7'', plan = ''free'', requests_today = 20,
             last_request_date = Some 738000, last_request_time = Some 1700000000\<rparr>]
   \<and> verify_api_key \<lparr>today = 738000, now_ts = 1700000000.5\<rparr> (Some ''nobody'')
       [\<lparr>user_id = 7, api_key = ''key-7'', plan = ''free'', requests_today = 20,
         last_request_date = Some 738000, last_request_time = Some 1700000000\<rparr>]
     = (Inl InvalidKey,
       [\<lparr>user_id = 7, api_key = ''key-7'', plan = ''free'', requests_today = 20,
         last_request_date = Some 738000, last_request_time = Some 1700000000\<rparr>])
   \<and> verify_api_key \<lparr>today = 738000, now_ts = 1700000000.5\<rparr> (Some [])
       [\<lparr>user_id = 7, api_key = ''key-7'', plan = ''free'', requests_today = 20,
         last_request_date = Some 738000, last_request_time = Some 1700000000\<rparr>]
     = (Inl MissingKey,
       [\<lparr>user_id = 7, api_key = ''key-7'', plan = ''free'', requests_today = 20,
         last_request_date = Some 738000, last_request_time = Some 1700000000\<rparr>])
   \<and> verify_api_key \<lparr>today = 738000, now_ts = 1700000000.5\<rparr> None
       [\<lparr>user_id = 7, api_key = ''key-7'', plan = ''free'', requests_today = 20,
         last_request_date = Some 738000, last_request_time = Some 1700000000\<rparr>]
     = (Inl MissingKey,
       [\<lparr>user_id = 7, api_key = ''key-7'', plan = ''free'', requests_today = 20,
         last_request_date = Some 738000, last_request_time = Some 1700000000\<rparr>])"
  using unauthenticated_first
    [of "Some ''nobody''"
        "[\<lparr>user_id = 7, api_key = ''key-7'', plan = ''free'', requests_today = 20,
           last_request_date = Some 738000, last_request_time = Some 1700000000\<rparr>]"
        "\<lparr>today = 738000, now_ts = 1700000000.5\<rparr>"]
    unauthenticated_first
    [of "Some []"
        "[\<lparr>user_id = 7, api_key = ''key-7'', plan = ''free'', requests_today = 20,
           last_request_date = Some 738000, last_request_time = Some 1700000000\<rparr>]"
        "\<lparr>today = 738000, now_ts = 1700000000.5\<rparr>"]
    unauthenticated_first
    [of "None"
        "[\<lparr>user_id = 7, api_key = ''key-7'', plan = ''free'', requests_today = 20,
           last_request_date = Some 738000, last_request_time = Some 1700000000\<rparr>]"
        "\<lparr>today = 738000, now_ts = 1700000000.5\<rparr>"]
  by simp

subsection \<open>C8: two requests of one caller at once\<close>

text \<open>
  C8 states that two calls for the same caller with \<open>now\<close> values 0.1 seconds apart
  give exactly one acceptance and one \<open>RateLimited\<close>, and that no increment of
  \<open>requests_today\<close> is lost. The row below made its last request the day before. Two
  requests arrive 0.1 seconds apart and both read the row (line 63) before either
  writes it (lines 74-82): both are accepted, and both write the new-day \<open>UPDATE\<close>,
  so that \<open>requests_today\<close> is 1 after two accepted requests. Run one after the other,
  the same two requests give one acceptance and one \<open>RateLimited\<close>.
\<close>

theorem concurrent_requests_both_admitted:
  "interleave [A, B, A, B, A, B]
     (\<lparr>today = 738000, now_ts = 1700000000\<rparr>, Some ''key-8'')
     (\<lparr>today = 738000, now_ts = 1700000000.1\<rparr>, Some ''key-8'')
     (Lookup, Lookup,
      [\<lparr>user_id = 8, api_key = ''key-8'', plan = ''free'', requests_today = 5,
         last_request_date = Some 737999, last_request_time = Some 1699990000\<rparr>])
   = (Finished (Inr \<lparr>user_id = 8, api_key = ''key-8'', plan = ''free'', requests_today = 0,
         last_request_date = Some 737999, last_request_time = Some 1699990000\<rparr>),
      Finished (Inr \<lparr>user_id = 8, api_key = ''key-8'', plan = ''free'', requests_today = 0,
         last_request_date = Some 737999, last_request_time = Some 1699990000\<rparr>),
      [\<lparr>user_id = 8, api_key = ''key-8'', plan = ''free'', requests_today = 1,
         last_request_date = Some 738000, last_request_time = Some 1700000000.1\<rparr>])
   \<and> interleave [A, A, A, B, B, B]
     (\<lparr>today = 738000, now_ts = 1700000000\<rparr>, Some ''key-8'')
     (\<lparr>today = 738000, now_ts = 1700000000.1\<rparr>, Some ''key-8'')
     (Lookup, Lookup,
      [\<lparr>user_id = 8, api_key = ''key-8'', plan = ''free'', requests_today = 5,
         last_request_date = Some 737999, last_request_time = Some 1699990000\<rparr>])
   = (Finished (Inr \<lparr>user_id = 8, api_key = ''key-8'', plan = ''free'', requests_today = 0,
         last_request_date = Some 737999, last_request_time = Some 1699990000\<rparr>),
      Finished (Inl RateLimited),
      [\<lparr>user_id = 8, api_key = ''key-8'', plan = ''free'', requests_today = 1,
         last_request_date = Some 738000, last_request_time = Some 1700000000\<rparr>])"
  by (simp add: get_user_from_db_def lazy_reset_def DAILY_LIMIT_def)

subsection \<open>C9: the summarisation runs after admission and does not undo it\<close>

text \<open>
  C9: the summarisation pipeline is called only when \<open>verify_api_key\<close> has accepted
  the request. When it then fails, the endpoint fails with that error and the table
  stays as \<open>verify_api_key\<close> left it: the row of the caller keeps the incremented (or
  reset to 1) \<open>requests_today\<close> and the new \<open>last_request_time\<close>.
\<close>

theorem no_rollback_after_admission:
  "(snd (snd (resumage SUMMARIZER clk x_api_key req d)) \<noteq> [] \<longrightarrow>
      (\<exists>user. fst (verify_api_key clk x_api_key d) = Inr user))
   \<and> (distinct (map user_id d) \<and> get_user_from_db k d = Inr u \<and> k \<noteq> []
        \<and> verify_api_key clk (Some k) d = (Inr user, d')
        \<and> SUMMARIZER (content req) (max_length req) (min_length req) = Inl e \<longrightarrow>
      resumage SUMMARIZER clk (Some k) req d =
        (Inl e, d', [(content req, max_length req, min_length req)])
      \<and> get_user_from_db k d' =
          Inr (if last_request_date u \<noteq> Some (today clk)
               then u\<lparr>requests_today := 1, last_request_date := Some (today clk),
                      last_request_time := Some (now_ts clk)\<rparr>
               else u\<lparr>requests_today := requests_today u + 1,
                      last_request_time := Some (now_ts clk)\<rparr>))"
proof (intro conjI impI)
  assume "snd (snd (resumage SUMMARIZER clk x_api_key req d)) \<noteq> []"
  then show "\<exists>user. fst (verify_api_key clk x_api_key d) = Inr user"
    by (auto simp: resumage_def split: prod.splits sum.splits)
next
  assume a: "distinct (map user_id d) \<and> get_user_from_db k d = Inr u \<and> k \<noteq> []
    \<and> verify_api_key clk (Some k) d = (Inr user, d')
    \<and> SUMMARIZER (content req) (max_length req) (min_length req) = Inl e"
  then show "resumage SUMMARIZER clk (Some k) req d =
      (Inl e, d', [(content req, max_length req, min_length req)])"
    by (simp add: resumage_def)
  have "get_user_from_db k d' = Inr (written clk u)"
    using a verify_api_key_accepted(2) [of d k u clk user d'] by simp
  then show "get_user_from_db k d' =
      Inr (if last_request_date u \<noteq> Some (today clk)
           then u\<lparr>requests_today := 1, last_request_date := Some (today clk),
                  last_request_time := Some (now_ts clk)\<rparr>
           else u\<lparr>requests_today := requests_today u + 1,
                  last_request_time := Some (now_ts clk)\<rparr>)"
    by (simp add: written_def)
qed

theorem no_rollback_after_admission_witness:
  "distinct (map user_id
     [\<lparr>user_id = 9, api_key = ''key-9'', plan = ''free'', requests_today = 4,
         last_request_date = Some 738000, last_request_time = Some 1700000000\<rparr>])
   \<and> get_user_from_db ''key-9''
       [\<lparr>user_id = 9, api_key = ''key-9'', plan = ''free'', requests_today = 4,
         last_request_date = Some 738000, last_request_time = Some 1700000000\<rparr>]
     = Inr \<lparr>user_id = 9, api_key = ''key-9'', plan = ''free'', requests_today = 4,
         last_request_date = Some 738000, last_request_time = Some 1700000000\<rparr>
   \<and> verify_api_key \<lparr>today = 738000, now_ts = 1700000003\<rparr> (Some ''key-9'')
       [\<lparr>user_id = 9, api_key = ''key-9'', plan = ''free'', requests_today = 4,
         last_request_date = Some 738000, last_request_time = Some 1700000000\<rparr>]
     = (Inr \<lparr>user_id = 9, api_key = ''key-9'', plan = ''free'', requests_today = 4,
         last_request_date = Some 738000, last_request_time = Some 1700000000\<rparr>,
       [\<lparr>user_id = 9, api_key = ''key-9'', plan = ''free'', requests_today = 5,
         last_request_date = Some 738000, last_request_time = Some 1700000003\<rparr>])
   \<and> resumage (\<lambda>text maxlen minlen. Inl (Exception ''RuntimeError''))
       \<lparr>today = 738000, now_ts = 1700000003\<rparr> (Some ''key-9'')
       \<lparr>content = ''Un texte.'', max_length = 130, min_length = 30\<rparr>
       [\<lparr>user_id = 9, api_key = ''key-9'', plan = ''free'', requests_today = 4,
         last_request_date = Some 738000, last_request_time = Some 1700000000\<rparr>]
     = (Inl (Exception ''RuntimeError''),
       [\<lparr>user_id = 9, api_key = ''key-9'', plan = ''free'', requests_today = 5,
         last_request_date = Some 738000, last_request_time = Some 1700000003\<rparr>],
       [(''Un texte.'', 130, 30)])
   \<and> get_user_from_db ''key-9''
       [\<lparr>user_id = 9, api_key = ''key-9'', plan = ''free'', requests_today = 5,
         last_request_date = Some 738000, last_request_time = Some 1700000003\<rparr>]
     = Inr \<lparr>user_id = 9, api_key = ''key-9'', plan = ''free'', requests_today = 5,
         last_request_date = Some 738000, last_request_time = Some 1700000003\<rparr>"
  using no_rollback_after_admission
    [of "\<lambda>text maxlen minlen. Inl (Exception ''RuntimeError'')"
        "\<lparr>today = 738000, now_ts = 1700000003\<rparr>" "Some ''key-9''"
        "\<lparr>content = ''Un texte.'', max_length = 130, min_length = 30\<rparr>"
        "[\<lparr>user_id = 9, api_key = ''key-9'', plan = ''free'', requests_today = 4,
         last_request_date = Some 738000, last_request_time = Some 1700000000\<rparr>]"
        "''key-9''"
        "\<lparr>user_id = 9, api_key = ''key-9'', plan = ''free'', requests_today = 4,
         last_request_date = Some 738000, last_request_time = Some 1700000000\<rparr>"
        "\<lparr>user_id = 9, api_key = ''key-9'', plan = ''free'', requests_today = 4,
         last_request_date = Some 738000, last_request_time = Some 1700000000\<rparr>"
        "[\<lparr>user_id = 9, api_key = ''key-9'', plan = ''free'', requests_today = 5,
         last_request_date = Some 738000, last_request_time = Some 1700000003\<rparr>]"
        "Exception ''RuntimeError''"]
  by (simp add: verify_api_key_def update_user_usage_def get_user_from_db_def
      lazy_reset_def DAILY_LIMIT_def)

subsection \<open>C10: the plan is compared with the lowercase string\<close>

text \<open>
  C10: the daily-quota check is taken only when the \<open>plan\<close> field is exactly the
  string \<open>free\<close>. A request of a known caller is rejected with \<open>QuotaExceeded\<close> if and
  only if the plan is \<open>free\<close> and the count for today is at least 20; for every other
  plan value (\<open>FREE\<close>, \<open>Free\<close>, \<open>pro\<close>, any other string) it is never rejected with
  \<open>QuotaExceeded\<close>.
\<close>

lemma update_user_usage_not_quota:
  "fst (update_user_usage clk uid d) \<noteq> Inl QuotaExceeded"
  using errors_distinct
  by (auto simp: update_user_usage_def QuotaExceeded_def split: option.splits)

theorem quota_only_for_plan_free:
  assumes "get_user_from_db k d = Inr u" and "k \<noteq> []"
  shows "fst (verify_api_key clk (Some k) d) = Inl QuotaExceeded \<longleftrightarrow>
           plan u = ''free'' \<and> DAILY_LIMIT \<le> requests_today (lazy_reset (today clk) u)"
proof (cases "plan u = ''free'' \<and> DAILY_LIMIT \<le> requests_today (lazy_reset (today clk) u)")
  case True
  then show ?thesis using assms by (simp add: verify_api_key_quota)
next
  case False
  have "fst (case update_user_usage clk uid d of
               (Inl e, d') \<Rightarrow> (Inl e, d') | (Inr _, d') \<Rightarrow> (Inr v, d')) \<noteq> Inl QuotaExceeded"
    for uid and v :: user
    using update_user_usage_not_quota [of clk uid d]
    by (auto split: prod.splits sum.splits)
  then show ?thesis
    using False assms by (auto simp: verify_api_key_def Let_def lazy_reset_def)
qed

theorem quota_only_for_plan_free_witness:
  "get_user_from_db ''key-10''
     [\<lparr>user_id = 10, api_key = ''key-10'', plan = ''FREE'', requests_today = 1000,
       last_request_date = Some 738000, last_request_time = Some 1700000000\<rparr>]
   = Inr \<lparr>user_id = 10, api_key = ''key-10'', plan = ''FREE'', requests_today = 1000,
       last_request_date = Some 738000, last_request_time = Some 1700000000\<rparr>
   \<and> DAILY_LIMIT \<le> requests_today (lazy_reset 738000
       \<lparr>user_id = 10, api_key = ''key-10'', plan = ''FREE'', requests_today = 1000,
        last_request_date = Some 738000, last_request_time = Some 1700000000\<rparr>)
   \<and> fst (verify_api_key \<lparr>today = 738000, now_ts = 1700000002\<rparr> (Some ''key-10'')
       [\<lparr>user_id = 10, api_key = ''key-10'', plan = ''FREE'', requests_today = 1000,
         last_request_date = Some 738000, last_request_time = Some 1700000000\<rparr>])
     \<noteq> Inl QuotaExceeded"
  using quota_only_for_plan_free
    [of "''key-10''"
        "[\<lparr>user_id = 10, api_key = ''key-10'', plan = ''FREE'', requests_today = 1000,
           last_request_date = Some 738000, last_request_time = Some 1700000000\<rparr>]"
        "\<lparr>user_id = 10, api_key = ''key-10'', plan = ''FREE'', requests_today = 1000,
           last_request_date = Some 738000, last_request_time = Some 1700000000\<rparr>"
        "\<lparr>today = 738000, now_ts = 1700000002\<rparr>"]
  by (simp add: get_user_from_db_def lazy_reset_def DAILY_LIMIT_def)

end
